theory Spec2Isabelle
  imports Complex_Main "HOL-Library.AList" "HOL-Library.Sublist"
begin

section \<open>Utility functions for Amazon Bedrock model comparison (\<open>utils.py\<close>)\<close>

text \<open>
  The module has three functions: \<open>get_bedrock_client\<close> (a call into the SDK, not
  modelled), \<open>converse\<close> (builds the request dictionary, calls the client once and picks
  the answer text out of the response) and \<open>calculate_monthly_cost\<close> (arithmetic).
\<close>

subsection \<open>Python values and errors\<close>

datatype py_error = IndexError | KeyError | OverflowError | ClientError string

text \<open>
  The values that occur in the request and in the response. A dictionary is an association
  list in insertion order, with distinct keys. A dictionary literal that is neither bound
  to a name nor changed after it was built is a value (\<open>PDict\<close>); the two dictionaries
  that \<open>converse\<close> binds to names are objects of the store and are held by reference
  (\<open>PRef\<close>), because one of them is changed after the other one has taken a reference
  to it. A \<open>float\<close> is read as a real number: \<open>converse\<close> only passes it on.
\<close>

datatype pyval =
    PNone
  | PStr string
  | PInt int
  | PFloat real
  | PList "pyval list"
  | PDict "(string \<times> pyval) list"
  | PRef nat

type_synonym dict = "(string \<times> pyval) list"

text \<open>\<open>k in d\<close> and \<open>d[k]\<close> on a dictionary; the subscript raises \<open>KeyError\<close>.\<close>

definition contains_key :: "dict \<Rightarrow> string \<Rightarrow> bool" where
  "contains_key d k = (case map_of d k of None \<Rightarrow> False | Some v \<Rightarrow> True)"

definition getitem :: "dict \<Rightarrow> string \<Rightarrow> py_error + pyval" where
  "getitem d k = (case map_of d k of None \<Rightarrow> Inl KeyError | Some v \<Rightarrow> Inr v)"

text \<open>\<open>xs[0]\<close> on a list; raises \<open>IndexError\<close> on the empty list.\<close>

definition index0 :: "'a list \<Rightarrow> py_error + 'a" where
  "index0 xs = (case xs of [] \<Rightarrow> Inl IndexError | x # rest \<Rightarrow> Inr x)"

subsection \<open>Strings\<close>

text \<open>
  \<open>str.lower()\<close> on an identifier of ASCII characters (the model identifiers of the service
  are ASCII): the 26 capital letters are mapped, every other character is kept.
\<close>

definition lower_char :: "char \<Rightarrow> char" where
  "lower_char c =
     (case map_of (zip ''ABCDEFGHIJKLMNOPQRSTUVWXYZ'' ''abcdefghijklmnopqrstuvwxyz'') c of
        None \<Rightarrow> c
      | Some l \<Rightarrow> l)"

definition lower :: "string \<Rightarrow> string" where
  "lower s = map lower_char s"

text \<open>\<open>sub in s\<close> on strings: \<open>sub\<close> occurs in \<open>s\<close> as a contiguous substring.\<close>

fun startswith :: "string \<Rightarrow> string \<Rightarrow> bool" where
  "startswith s [] = True"
| "startswith [] (c # cs) = False"
| "startswith (x # xs) (c # cs) = (x = c \<and> startswith xs cs)"

fun py_in :: "string \<Rightarrow> string \<Rightarrow> bool" where
  "py_in sub [] = (sub = [])"
| "py_in sub (x # xs) = (startswith (x # xs) sub \<or> py_in sub xs)"

subsection \<open>The store of dictionary objects\<close>

text \<open>
  An address is a position in the store. \<open>new_dict\<close> is the evaluation of a dictionary
  display that is bound to a name; \<open>setitem a k v\<close> is \<open>d[k] = v\<close> on the object at \<open>a\<close>:
  the value of an existing key is replaced in place, a new key goes to the end.
\<close>

type_synonym store = "dict list"

definition new_dict :: "dict \<Rightarrow> store \<Rightarrow> nat \<times> store" where
  "new_dict d s = (length s, s @ [d])"

definition setitem :: "nat \<Rightarrow> string \<Rightarrow> pyval \<Rightarrow> store \<Rightarrow> store" where
  "setitem a k v s = (if a < length s then s[a := AList.update k v (s ! a)] else s)"

subsection \<open>\<open>converse\<close>: the arguments\<close>

text \<open>
  The parameters of \<open>converse\<close> after \<open>client\<close>. The last two default to \<open>None\<close>, and
  \<open>None\<close> is what the function tests for, so they are options. \<open>default_args\<close> is a call
  that gives the two required arguments only.
\<close>

record converse_args =
  model_id :: string
  prompt :: string
  system_prompt :: string
  temperature :: real
  max_tokens :: int
  reasoning_effort :: "string option"
  thinking_budget :: "int option"

definition default_args :: "string \<Rightarrow> string \<Rightarrow> converse_args" where
  "default_args m p =
     \<lparr>model_id = m, prompt = p, system_prompt = ''You are a helpful assistant.'',
      temperature = 0.0, max_tokens = 2000, reasoning_effort = None, thinking_budget = None\<rparr>"

text \<open>The Python value of an optional argument, and the truth value of an optional string.\<close>

fun str_value :: "string option \<Rightarrow> pyval" where
  "str_value None = PNone"
| "str_value (Some e) = PStr e"

fun int_value :: "int option \<Rightarrow> pyval" where
  "int_value None = PNone"
| "int_value (Some n) = PInt n"

fun truthy :: "string option \<Rightarrow> bool" where
  "truthy None = False"
| "truthy (Some e) = (e \<noteq> [])"

subsection \<open>\<open>converse\<close>: building the request\<close>

text \<open>
  What \<open>client.converse(**converse_params)\<close> receives: the entries of \<open>converse_params\<close> as
  keyword arguments, and the store their references point into.
\<close>

record request =
  kwargs :: dict
  heap :: store

text \<open>
  The statements of \<open>converse\<close> up to the call, in their order. \<open>inference_config\<close> is
  entered into \<open>converse_params\<close> by reference before the \<open>thinking\<close> entry is added to it.
\<close>

definition converse_request :: "converse_args \<Rightarrow> request" where
  "converse_request args =
     (let (inference_config, s1) =
            new_dict [(''temperature'', PFloat (temperature args)),
                      (''maxTokens'', PInt (max_tokens args))] [];
          (converse_params, s2) =
            new_dict [(''modelId'', PStr (model_id args)),
                      (''messages'',
                         PList [PDict [(''role'', PStr ''user''),
                                       (''content'', PList [PDict [(''text'', PStr (prompt args))]])]]),
                      (''system'', PList [PDict [(''text'', PStr (system_prompt args))]]),
                      (''inferenceConfig'', PRef inference_config)] s1;
          s3 = (if (py_in ''openai'' (lower (model_id args)) \<or> py_in ''gpt'' (lower (model_id args)))
                   \<and> truthy (reasoning_effort args)
                then setitem converse_params ''additionalModelRequestFields''
                       (PDict [(''reasoning_effort'', str_value (reasoning_effort args))]) s2
                else s2);
          s4 = (if py_in ''claude'' (lower (model_id args)) \<and> thinking_budget args \<noteq> None
                then setitem inference_config ''thinking''
                       (PDict [(''type'', PStr ''enabled''),
                               (''budget'', int_value (thinking_budget args))]) s3
                else s3)
      in \<lparr>kwargs = s4 ! converse_params, heap = s4\<rparr>)"

text \<open>
  Reading the request along a path of keys, as its receiver does: a reference is followed
  into the store. \<open>None\<close> when a key of the path is absent.
\<close>

fun lookup_path :: "store \<Rightarrow> pyval \<Rightarrow> string list \<Rightarrow> pyval option" where
  "lookup_path s v [] = Some v"
| "lookup_path s (PDict d) (k # ks) =
     (case map_of d k of None \<Rightarrow> None | Some v \<Rightarrow> lookup_path s v ks)"
| "lookup_path s (PRef a) (k # ks) =
     (if a < length s
      then (case map_of (s ! a) k of None \<Rightarrow> None | Some v \<Rightarrow> lookup_path s v ks)
      else None)"
| "lookup_path s v (k # ks) = None"

definition request_field :: "request \<Rightarrow> string list \<Rightarrow> pyval option" where
  "request_field r path = lookup_path (heap r) (PDict (kwargs r)) path"

subsection \<open>\<open>converse\<close>: reading the response\<close>

text \<open>
  The response of the service, as far as \<open>converse\<close> reads it:
  \<open>response['output']['message']['content']\<close>, a list of content blocks, each a dictionary.
\<close>

record response =
  output_message_content :: "dict list"

text \<open>
  The \<open>for\<close> loop: \<open>Some r\<close> when its body returns \<open>r\<close> at some item, \<open>None\<close> when the
  items are used up.
\<close>

fun for_item :: "dict list \<Rightarrow> (py_error + pyval) option" where
  "for_item [] = None"
| "for_item (item # rest) =
     (if contains_key item ''text'' then Some (getitem item ''text'') else for_item rest)"

definition response_text :: "dict list \<Rightarrow> py_error + pyval" where
  "response_text content =
     (case (if length content > 1 then for_item content else None) of
        Some r \<Rightarrow> r
      | None \<Rightarrow> (case index0 content of Inl e \<Rightarrow> Inl e | Inr b \<Rightarrow> getitem b ''text''))"

text \<open>
  The whole function (\<open>converse_py\<close>, as \<open>converse\<close> is the converse of a relation in
  HOL). The client is the one blocking call; an error of the service is handed on to the
  caller.
\<close>

definition converse_py :: "(request \<Rightarrow> py_error + response) \<Rightarrow> converse_args \<Rightarrow> py_error + pyval" where
  "converse_py client args =
     (case client (converse_request args) of
        Inl e \<Rightarrow> Inl e
      | Inr resp \<Rightarrow> response_text (output_message_content resp))"

text \<open>A client that answers every request with the same content blocks.\<close>

definition reply_with :: "dict list \<Rightarrow> request \<Rightarrow> py_error + response" where
  "reply_with content r = Inr \<lparr>output_message_content = content\<rparr>"

subsection \<open>\<open>calculate_monthly_cost\<close>\<close>

text \<open>
  The function in exact arithmetic: Python's \<open>int\<close> is unbounded, \<open>/\<close> is true division,
  and the \<open>float\<close> results are read as real numbers (no rounding).
\<close>

definition calculate_monthly_cost :: "int \<Rightarrow> int \<Rightarrow> int \<Rightarrow> real \<Rightarrow> real \<Rightarrow> real" where
  "calculate_monthly_cost requests_per_day avg_input_tokens avg_output_tokens
       input_price_per_1k output_price_per_1k =
     (let monthly_requests = requests_per_day * 30;
          monthly_input_tokens = real_of_int (monthly_requests * avg_input_tokens) / 1000;
          monthly_output_tokens = real_of_int (monthly_requests * avg_output_tokens) / 1000
      in monthly_input_tokens * input_price_per_1k +
         monthly_output_tokens * output_price_per_1k)"

text \<open>
  What the interpreter adds to exact arithmetic. \<open>a / b\<close> on two \<open>int\<close>s computes the
  correctly rounded double of the quotient and raises \<open>OverflowError\<close> (integer division
  result too large for a float) when that double would not be finite, which is when the
  magnitude of the quotient reaches \<open>2^1024 - 2^970\<close>, half a unit in the last place above
  the largest double. The divisor here is the literal 1000, so there is no division by
  zero. Products and sums of \<open>float\<close>s never raise (they give \<open>inf\<close> or \<open>nan\<close>). The value
  of a successful division is kept exact, as above.
\<close>

definition float_overflow_bound :: real where
  "float_overflow_bound = 2 ^ 1024 - 2 ^ 970"

definition int_true_div :: "int \<Rightarrow> int \<Rightarrow> py_error + real" where
  "int_true_div a b =
     (if float_overflow_bound \<le> \<bar>real_of_int a / real_of_int b\<bar> then Inl OverflowError
      else Inr (real_of_int a / real_of_int b))"

definition calculate_monthly_cost_run ::
    "int \<Rightarrow> int \<Rightarrow> int \<Rightarrow> real \<Rightarrow> real \<Rightarrow> py_error + real" where
  "calculate_monthly_cost_run requests_per_day avg_input_tokens avg_output_tokens
       input_price_per_1k output_price_per_1k =
     (let monthly_requests = requests_per_day * 30 in
      case int_true_div (monthly_requests * avg_input_tokens) 1000 of
        Inl e \<Rightarrow> Inl e
      | Inr monthly_input_tokens \<Rightarrow>
          (case int_true_div (monthly_requests * avg_output_tokens) 1000 of
             Inl e \<Rightarrow> Inl e
           | Inr monthly_output_tokens \<Rightarrow>
               Inr (monthly_input_tokens * input_price_per_1k +
                    monthly_output_tokens * output_price_per_1k)))"

section \<open>Properties of \<open>calculate_monthly_cost\<close>\<close>




lemma int_true_div_out_of_range:
  "float_overflow_bound \<le> \<bar>real_of_int a\<bar> / 1000 \<Longrightarrow>
   int_true_div a 1000 = Inl OverflowError"
  by (simp add: int_true_div_def)

text \<open>
  The two readings of the function agree: a run either raises \<open>OverflowError\<close> or
  returns the value of the exact function.
\<close>

lemma calculate_monthly_cost_run_cases:
  "calculate_monthly_cost_run r i o' p q = Inl OverflowError
   \<or> calculate_monthly_cost_run r i o' p q = Inr (calculate_monthly_cost r i o' p q)"
  unfolding calculate_monthly_cost_run_def calculate_monthly_cost_def Let_def int_true_div_def
  by (simp split: if_splits)




section \<open>Properties of \<open>converse\<close>: the request\<close>

text \<open>The substring test is the library's \<open>sublist\<close>.\<close>

lemma startswith_prefix: "startswith s sub \<longleftrightarrow> prefix sub s"
  by (induction s sub rule: startswith.induct) auto

lemma py_in_sublist: "py_in sub s \<longleftrightarrow> sublist sub s"
  by (induction s) (auto simp: startswith_prefix sublist_Cons_right)

text \<open>The entries of the request that the claims read, computed once.\<close>

lemma request_base_fields:
  "request_field (converse_request args) [''messages''] =
     Some (PList [PDict [(''role'', PStr ''user''),
                         (''content'', PList [PDict [(''text'', PStr (prompt args))]])]])"
  "request_field (converse_request args) [''system''] =
     Some (PList [PDict [(''text'', PStr (system_prompt args))]])"
  "request_field (converse_request args) [''inferenceConfig'', ''temperature''] =
     Some (PFloat (temperature args))"
  "request_field (converse_request args) [''inferenceConfig'', ''maxTokens''] =
     Some (PInt (max_tokens args))"
  by (simp_all add: request_field_def converse_request_def new_dict_def setitem_def Let_def)

lemma request_thinking_field:
  "request_field (converse_request args) [''inferenceConfig'', ''thinking''] =
     (if py_in ''claude'' (lower (model_id args)) \<and> thinking_budget args \<noteq> None
      then Some (PDict [(''type'', PStr ''enabled''),
                        (''budget'', int_value (thinking_budget args))])
      else None)"
  by (simp add: request_field_def converse_request_def new_dict_def setitem_def Let_def)

lemma request_extension_fields:
  "request_field (converse_request args) [''additionalModelRequestFields''] =
     (if (py_in ''openai'' (lower (model_id args)) \<or> py_in ''gpt'' (lower (model_id args)))
          \<and> truthy (reasoning_effort args)
      then Some (PDict [(''reasoning_effort'', str_value (reasoning_effort args))])
      else None)"
  by (simp add: request_field_def converse_request_def new_dict_def setitem_def Let_def)

lemma request_reasoning_effort_field:
  "request_field (converse_request args) [''additionalModelRequestFields'', ''reasoning_effort''] =
     (if (py_in ''openai'' (lower (model_id args)) \<or> py_in ''gpt'' (lower (model_id args)))
          \<and> truthy (reasoning_effort args)
      then Some (str_value (reasoning_effort args))
      else None)"
  by (simp add: request_field_def converse_request_def new_dict_def setitem_def Let_def)

text \<open>
  Claim C9. The request of every call has one message, of role \<open>user\<close>, whose content is
  the one text block of the prompt; one system block, with the system prompt; and an
  inference configuration with \<open>temperature\<close> and \<open>maxTokens\<close> set to the arguments, which
  are 0.0 and 2000 when the call does not give them.
\<close>

theorem converse_request_base:
  "request_field (converse_request args) [''messages''] =
     Some (PList [PDict [(''role'', PStr ''user''),
                         (''content'', PList [PDict [(''text'', PStr (prompt args))]])]])
   \<and> request_field (converse_request args) [''system''] =
     Some (PList [PDict [(''text'', PStr (system_prompt args))]])
   \<and> request_field (converse_request args) [''inferenceConfig'', ''temperature''] =
     Some (PFloat (temperature args))
   \<and> request_field (converse_request args) [''inferenceConfig'', ''maxTokens''] =
     Some (PInt (max_tokens args))
   \<and> temperature (default_args m p) = 0.0
   \<and> max_tokens (default_args m p) = 2000"
  by (simp add: request_base_fields default_args_def)

theorem converse_request_base_witness:
  "request_field (converse_request (default_args ''amazon.nova-pro-v1:0'' ''Hello''))
       [''messages''] =
     Some (PList [PDict [(''role'', PStr ''user''),
                         (''content'', PList [PDict [(''text'', PStr ''Hello'')]])]])
   \<and> request_field (converse_request (default_args ''amazon.nova-pro-v1:0'' ''Hello''))
       [''system''] =
     Some (PList [PDict [(''text'', PStr ''You are a helpful assistant.'')]])
   \<and> request_field (converse_request (default_args ''amazon.nova-pro-v1:0'' ''Hello''))
       [''inferenceConfig'', ''temperature''] = Some (PFloat 0)
   \<and> request_field (converse_request (default_args ''amazon.nova-pro-v1:0'' ''Hello''))
       [''inferenceConfig'', ''maxTokens''] = Some (PInt 2000)"
  using converse_request_base
          [of "default_args ''amazon.nova-pro-v1:0'' ''Hello''" "''amazon.nova-pro-v1:0''" "''Hello''"]
  by (simp add: default_args_def)

text \<open>
  Claim C4. The inference configuration of the request has the key \<open>thinking\<close> exactly
  when the lowercase model identifier contains \<open>claude\<close> and \<open>thinking_budget\<close> is not
  \<open>None\<close> (zero counts as given); its value is then the dictionary with \<open>type\<close> =
  \<open>enabled\<close> and \<open>budget\<close> = the given number; with \<open>thinking_budget\<close> absent there is no
  such key.
\<close>

theorem thinking_attached_iff:
  "(request_field (converse_request args) [''inferenceConfig'', ''thinking''] \<noteq> None
      \<longleftrightarrow> py_in ''claude'' (lower (model_id args)) \<and> thinking_budget args \<noteq> None)
   \<and> (\<forall>b. py_in ''claude'' (lower (model_id args)) \<and> thinking_budget args = Some b
        \<longrightarrow> request_field (converse_request args) [''inferenceConfig'', ''thinking''] =
             Some (PDict [(''type'', PStr ''enabled''), (''budget'', PInt b)]))
   \<and> (thinking_budget args = None
        \<longrightarrow> request_field (converse_request args) [''inferenceConfig'', ''thinking''] = None)"
  by (simp add: request_thinking_field)

theorem thinking_attached_iff_witness:
  "py_in ''claude'' (lower ''us.anthropic.Claude-Sonnet-4'')
   \<and> request_field
       (converse_request ((default_args ''us.anthropic.Claude-Sonnet-4'' ''Hello'')
                            \<lparr>thinking_budget := Some 0\<rparr>))
       [''inferenceConfig'', ''thinking''] =
     Some (PDict [(''type'', PStr ''enabled''), (''budget'', PInt 0)])"
proof -
  have m: "py_in ''claude'' (lower ''us.anthropic.Claude-Sonnet-4'')"
    by (simp add: lower_def lower_char_def)
  from thinking_attached_iff
         [of "(default_args ''us.anthropic.Claude-Sonnet-4'' ''Hello'')\<lparr>thinking_budget := Some 0\<rparr>"]
       m
  show ?thesis by (simp add: default_args_def)
qed

text \<open>
  Claim C5, as amended. When the lowercase model identifier contains \<open>openai\<close> or \<open>gpt\<close>
  and \<open>reasoning_effort\<close> is a non-empty string, the request has
  \<open>additionalModelRequestFields.reasoning_effort\<close> equal to that string; when
  \<open>reasoning_effort\<close> is omitted (or is the empty string) the request has no
  \<open>additionalModelRequestFields\<close> at all.
\<close>

theorem reasoning_effort_attached:
  "((py_in ''openai'' (lower (model_id args)) \<or> py_in ''gpt'' (lower (model_id args)))
      \<and> reasoning_effort args = Some e \<and> e \<noteq> []
     \<longrightarrow> request_field (converse_request args)
           [''additionalModelRequestFields'', ''reasoning_effort''] = Some (PStr e))
   \<and> (reasoning_effort args = None \<or> reasoning_effort args = Some []
     \<longrightarrow> request_field (converse_request args) [''additionalModelRequestFields''] = None)"
  by (auto simp: request_reasoning_effort_field request_extension_fields)

theorem reasoning_effort_attached_witness:
  "py_in ''gpt'' (lower ''openai.GPT-oss-120b-1:0'')
   \<and> request_field
       (converse_request ((default_args ''openai.GPT-oss-120b-1:0'' ''Hello'')
                            \<lparr>reasoning_effort := Some ''high''\<rparr>))
       [''additionalModelRequestFields'', ''reasoning_effort''] = Some (PStr ''high'')
   \<and> request_field (converse_request (default_args ''openai.GPT-oss-120b-1:0'' ''Hello''))
       [''additionalModelRequestFields''] = None"
proof -
  have m: "py_in ''gpt'' (lower ''openai.GPT-oss-120b-1:0'')"
    by (simp add: lower_def lower_char_def)
  from reasoning_effort_attached
         [of "(default_args ''openai.GPT-oss-120b-1:0'' ''Hello'')\<lparr>reasoning_effort := Some ''high''\<rparr>"
             "''high''"]
       reasoning_effort_attached [of "default_args ''openai.GPT-oss-120b-1:0'' ''Hello''"]
       m
  show ?thesis by (simp add: default_args_def)
qed

text \<open>
  Claim C5, as stated, fails: the test on \<open>reasoning_effort\<close> is its truth value, so the
  empty string, although given, attaches nothing.
\<close>

theorem empty_reasoning_effort_not_attached:
  "py_in ''gpt'' (lower ''openai.gpt-oss-120b-1:0'')
   \<and> reasoning_effort ((default_args ''openai.gpt-oss-120b-1:0'' ''Hello'')
                          \<lparr>reasoning_effort := Some ''''\<rparr>) = Some ''''
   \<and> request_field
       (converse_request ((default_args ''openai.gpt-oss-120b-1:0'' ''Hello'')
                            \<lparr>reasoning_effort := Some ''''\<rparr>))
       [''additionalModelRequestFields'', ''reasoning_effort''] = None"
  by (simp add: request_reasoning_effort_field default_args_def lower_def lower_char_def)

text \<open>
  Claim C6, as amended. The two rules are tested one after the other, neither excluding
  the other: when the lowercase model identifier contains \<open>openai\<close> or \<open>gpt\<close> and also
  \<open>claude\<close>, \<open>reasoning_effort\<close> is a non-empty string and \<open>thinking_budget\<close> is given,
  the request has both the \<open>reasoning_effort\<close> extension field and the \<open>thinking\<close> entry.
\<close>

theorem both_extensions_attached:
  assumes "py_in ''openai'' (lower (model_id args)) \<or> py_in ''gpt'' (lower (model_id args))"
    and "py_in ''claude'' (lower (model_id args))"
    and "reasoning_effort args = Some e" and "e \<noteq> []"
    and "thinking_budget args = Some b"
  shows "request_field (converse_request args)
           [''additionalModelRequestFields'', ''reasoning_effort''] = Some (PStr e)
       \<and> request_field (converse_request args) [''inferenceConfig'', ''thinking''] =
           Some (PDict [(''type'', PStr ''enabled''), (''budget'', PInt b)])"
  using assms by (simp add: request_reasoning_effort_field request_thinking_field)

theorem both_extensions_attached_witness:
  "request_field
       (converse_request ((default_args ''GPT-Claude-router'' ''Hello'')
                            \<lparr>reasoning_effort := Some ''low'', thinking_budget := Some 1024\<rparr>))
       [''additionalModelRequestFields'', ''reasoning_effort''] = Some (PStr ''low'')
   \<and> request_field
       (converse_request ((default_args ''GPT-Claude-router'' ''Hello'')
                            \<lparr>reasoning_effort := Some ''low'', thinking_budget := Some 1024\<rparr>))
       [''inferenceConfig'', ''thinking''] =
     Some (PDict [(''type'', PStr ''enabled''), (''budget'', PInt 1024)])"
proof -
  let ?a = "(default_args ''GPT-Claude-router'' ''Hello'')
              \<lparr>reasoning_effort := Some ''low'', thinking_budget := Some 1024\<rparr>"
  have g: "py_in ''openai'' (lower (model_id ?a)) \<or> py_in ''gpt'' (lower (model_id ?a))"
    by (simp add: default_args_def lower_def lower_char_def)
  have c: "py_in ''claude'' (lower (model_id ?a))"
    by (simp add: default_args_def lower_def lower_char_def)
  have r: "reasoning_effort ?a = Some ''low''" and n: "''low'' \<noteq> []"
    and t: "thinking_budget ?a = Some 1024"
    by simp_all
  show ?thesis
    by (rule both_extensions_attached [OF g c r n t])
qed

text \<open>
  Claim C6, as stated, fails: with both arguments given and \<open>reasoning_effort\<close> the empty
  string, the identifier matching both tests, only the \<open>thinking\<close> entry is attached.
\<close>

theorem empty_reasoning_effort_with_thinking:
  "py_in ''gpt'' (lower ''gpt-claude-router'') \<and> py_in ''claude'' (lower ''gpt-claude-router'')
   \<and> request_field
       (converse_request ((default_args ''gpt-claude-router'' ''Hello'')
                            \<lparr>reasoning_effort := Some '''', thinking_budget := Some 1024\<rparr>))
       [''inferenceConfig'', ''thinking''] =
     Some (PDict [(''type'', PStr ''enabled''), (''budget'', PInt 1024)])
   \<and> request_field
       (converse_request ((default_args ''gpt-claude-router'' ''Hello'')
                            \<lparr>reasoning_effort := Some '''', thinking_budget := Some 1024\<rparr>))
       [''additionalModelRequestFields''] = None"
  by (simp add: request_extension_fields request_thinking_field default_args_def
        lower_def lower_char_def)

section \<open>Properties of \<open>converse\<close>: the response\<close>

text \<open>The loop returns at the first block that has the key \<open>text\<close>, and only there.\<close>

lemma for_item_first:
  "i < length content \<Longrightarrow> map_of (content ! i) ''text'' = Some v \<Longrightarrow>
   \<forall>j<i. \<not> contains_key (content ! j) ''text'' \<Longrightarrow> for_item content = Some (Inr v)"
proof (induction content arbitrary: i)
  case Nil
  then show ?case by simp
next
  case (Cons b bs)
  show ?case
  proof (cases i)
    case 0
    with Cons.prems show ?thesis
      by (simp add: contains_key_def getitem_def)
  next
    case (Suc n)
    from Cons.prems Suc have b: "\<not> contains_key b ''text''"
      by auto
    from Cons.prems Suc have "\<forall>j<n. \<not> contains_key (bs ! j) ''text''"
      by auto
    with Cons.IH [of n] Cons.prems Suc have "for_item bs = Some (Inr v)"
      by simp
    with b show ?thesis by simp
  qed
qed

lemma for_item_None:
  "for_item content = None \<longleftrightarrow> (\<forall>b \<in> set content. \<not> contains_key b ''text'')"
  by (induction content) auto

lemma for_item_Some:
  "for_item content = Some r \<Longrightarrow>
   \<exists>i<length content. r = getitem (content ! i) ''text'' \<and> contains_key (content ! i) ''text''
      \<and> (\<forall>j<i. \<not> contains_key (content ! j) ''text'')"
proof (induction content)
  case Nil
  then show ?case by simp
next
  case (Cons b bs)
  show ?case
  proof (cases "contains_key b ''text''")
    case True
    with Cons.prems have "r = getitem b ''text''" by simp
    with True show ?thesis by (intro exI [of _ 0]) simp
  next
    case False
    with Cons.prems have "for_item bs = Some r" by simp
    from Cons.IH [OF this] obtain i where i: "i < length bs" "r = getitem (bs ! i) ''text''"
      "contains_key (bs ! i) ''text''" "\<forall>j<i. \<not> contains_key (bs ! j) ''text''"
      by blast
    have "\<forall>j<Suc i. \<not> contains_key ((b # bs) ! j) ''text''"
      using False i(4) by (auto simp: less_Suc_eq_0_disj)
    with i show ?thesis by (intro exI [of _ "Suc i"]) simp
  qed
qed

lemma getitem_key: "contains_key d k \<Longrightarrow> getitem d k = Inr v \<longleftrightarrow> map_of d k = Some v"
  by (auto simp: contains_key_def getitem_def split: option.splits)

lemma getitem_no_key: "\<not> contains_key d k \<Longrightarrow> getitem d k = Inl KeyError"
  by (auto simp: contains_key_def getitem_def split: option.splits)

lemma converse_reply:
  "client (converse_request args) = Inr resp \<Longrightarrow>
   converse_py client args = response_text (output_message_content resp)"
  by (simp add: converse_py_def)

text \<open>
  Claim C1. On a response with a non-empty content list: a list of one block gives that
  block's \<open>text\<close> entry (the subscript, so \<open>KeyError\<close> when it has none); a longer list
  gives the \<open>text\<close> of the block that is first, counting from index 0, among those that
  have the key \<open>text\<close>.
\<close>

theorem converse_returns_first_text:
  assumes "client (converse_request args) = Inr resp"
    and "output_message_content resp = content"
    and "content \<noteq> []"
  shows "(\<forall>b. content = [b] \<longrightarrow> converse_py client args = getitem b ''text'')
       \<and> (\<forall>i v. 1 < length content \<and> i < length content
                 \<and> map_of (content ! i) ''text'' = Some v
                 \<and> (\<forall>j<i. \<not> contains_key (content ! j) ''text'')
              \<longrightarrow> converse_py client args = Inr v)"
proof -
  have c: "converse_py client args = response_text content"
    using assms(1,2) by (simp add: converse_reply)
  have one: "converse_py client args = getitem b ''text''" if "content = [b]" for b
    using that by (simp add: c response_text_def index0_def)
  have many: "converse_py client args = Inr v"
    if "1 < length content" "i < length content" "map_of (content ! i) ''text'' = Some v"
       "\<forall>j<i. \<not> contains_key (content ! j) ''text''" for i v
  proof -
    have "for_item content = Some (Inr v)"
      using that(2-4) by (rule for_item_first)
    with that(1) show ?thesis
      by (simp add: c response_text_def)
  qed
  from one many show ?thesis by blast
qed

theorem converse_returns_first_text_witness:
  "converse_py (reply_with [[(''reasoningText'', PStr ''trace'')], [(''text'', PStr ''answer'')]])
       (default_args ''openai.gpt-oss-120b-1:0'' ''Hello'') = Inr (PStr ''answer'')
   \<and> converse_py (reply_with [[(''text'', PStr ''hello'')]])
       (default_args ''openai.gpt-oss-120b-1:0'' ''Hello'') = Inr (PStr ''hello'')"
proof -
  let ?a = "default_args ''openai.gpt-oss-120b-1:0'' ''Hello''"
  let ?c2 = "[[(''reasoningText'', PStr ''trace'')], [(''text'', PStr ''answer'')]]"
  let ?c1 = "[[(''text'', PStr ''hello'')]]"
  have "(\<forall>b. ?c2 = [b] \<longrightarrow> converse_py (reply_with ?c2) ?a = getitem b ''text'')
       \<and> (\<forall>i v. 1 < length ?c2 \<and> i < length ?c2
                 \<and> map_of (?c2 ! i) ''text'' = Some v
                 \<and> (\<forall>j<i. \<not> contains_key (?c2 ! j) ''text'')
              \<longrightarrow> converse_py (reply_with ?c2) ?a = Inr v)"
    by (rule converse_returns_first_text [of _ _ "\<lparr>output_message_content = ?c2\<rparr>"])
       (simp_all add: reply_with_def)
  then have "1 < length ?c2 \<and> (1::nat) < length ?c2
          \<and> map_of (?c2 ! 1) ''text'' = Some (PStr ''answer'')
          \<and> (\<forall>j<1. \<not> contains_key (?c2 ! j) ''text'')
        \<longrightarrow> converse_py (reply_with ?c2) ?a = Inr (PStr ''answer'')"
    by blast
  then have two: "converse_py (reply_with ?c2) ?a = Inr (PStr ''answer'')"
    by (simp add: contains_key_def)
  have "(\<forall>b. ?c1 = [b] \<longrightarrow> converse_py (reply_with ?c1) ?a = getitem b ''text'')
       \<and> (\<forall>i v. 1 < length ?c1 \<and> i < length ?c1
                 \<and> map_of (?c1 ! i) ''text'' = Some v
                 \<and> (\<forall>j<i. \<not> contains_key (?c1 ! j) ''text'')
              \<longrightarrow> converse_py (reply_with ?c1) ?a = Inr v)"
    by (rule converse_returns_first_text [of _ _ "\<lparr>output_message_content = ?c1\<rparr>"])
       (simp_all add: reply_with_def)
  then have "converse_py (reply_with ?c1) ?a = getitem [(''text'', PStr ''hello'')] ''text''"
    by blast
  then have one: "converse_py (reply_with ?c1) ?a = Inr (PStr ''hello'')"
    by (simp add: getitem_def)
  from two one show ?thesis by simp
qed

text \<open>
  Claim C2, as amended. On a response with more than one content block, the text that
  \<open>converse\<close> returns is the \<open>text\<close> of the first block, in the order of the list, that
  has the key \<open>text\<close>; that block is the first element of the list whenever the first
  element has the key.
\<close>

theorem converse_answer_is_first_text_block:
  assumes "client (converse_request args) = Inr resp"
    and "output_message_content resp = content"
    and "1 < length content"
    and "converse_py client args = Inr v"
  shows "\<exists>i<length content. map_of (content ! i) ''text'' = Some v
            \<and> (\<forall>j<i. \<not> contains_key (content ! j) ''text'')
            \<and> (contains_key (content ! 0) ''text'' \<longrightarrow> i = 0)"
proof -
  have c: "converse_py client args = response_text content"
    using assms(1,2) by (simp add: converse_reply)
  show ?thesis
  proof (cases "for_item content")
    case None
    then have "\<forall>b \<in> set content. \<not> contains_key b ''text''"
      by (simp add: for_item_None)
    moreover from assms(3) obtain b bs where "content = b # bs"
      by (cases content) auto
    ultimately have "response_text content = Inl KeyError"
      using None by (simp add: response_text_def index0_def getitem_no_key)
    with c assms(4) show ?thesis by simp
  next
    case (Some r)
    from for_item_Some [OF Some] obtain i where i: "i < length content"
      "r = getitem (content ! i) ''text''" "contains_key (content ! i) ''text''"
      "\<forall>j<i. \<not> contains_key (content ! j) ''text''"
      by blast
    from Some assms(3) have "response_text content = r"
      by (simp add: response_text_def)
    with c assms(4) i(2) have "getitem (content ! i) ''text'' = Inr v"
      by simp
    with i(3) have m: "map_of (content ! i) ''text'' = Some v"
      by (simp add: getitem_key)
    have "i = 0" if "contains_key (content ! 0) ''text''"
    proof (rule ccontr)
      assume "i \<noteq> 0"
      then have "0 < i" by simp
      with i(4) that show False by blast
    qed
    with i(1,4) m show ?thesis by blast
  qed
qed

theorem converse_answer_is_first_text_block_witness:
  "converse_py (reply_with [[(''text'', PStr ''trace'')], [(''text'', PStr ''answer'')]])
       (default_args ''openai.gpt-oss-120b-1:0'' ''Hello'') = Inr (PStr ''trace'')
   \<and> (\<exists>i<2. map_of ([[(''text'', PStr ''trace'')], [(''text'', PStr ''answer'')]] ! i) ''text''
               = Some (PStr ''trace'') \<and> i = 0)"
proof -
  let ?a = "default_args ''openai.gpt-oss-120b-1:0'' ''Hello''"
  let ?c = "[[(''text'', PStr ''trace'')], [(''text'', PStr ''answer'')]]"
  have r: "converse_py (reply_with ?c) ?a = Inr (PStr ''trace'')"
    by (simp add: converse_py_def reply_with_def response_text_def contains_key_def getitem_def)
  have "\<exists>i<length ?c. map_of (?c ! i) ''text'' = Some (PStr ''trace'')
            \<and> (\<forall>j<i. \<not> contains_key (?c ! j) ''text'')
            \<and> (contains_key (?c ! 0) ''text'' \<longrightarrow> i = 0)"
    by (rule converse_answer_is_first_text_block
               [of "reply_with ?c" ?a "\<lparr>output_message_content = ?c\<rparr>" ?c])
       (simp_all add: reply_with_def r)
  then obtain i where "i < 2" "map_of (?c ! i) ''text'' = Some (PStr ''trace'')" "i = 0"
    by (auto simp: contains_key_def)
  with r show ?thesis by blast
qed

text \<open>
  Claim C2, as stated, fails: on two blocks that both have the key \<open>text\<close> the answer is
  the text of the first element, and no later block carries it.
\<close>

theorem leading_text_block_is_returned:
  "length [[(''text'', PStr ''trace'')], [(''text'', PStr ''answer'')]] = 2
   \<and> converse_py (reply_with [[(''text'', PStr ''trace'')], [(''text'', PStr ''answer'')]])
       (default_args ''openai.gpt-oss-120b-1:0'' ''Hello'') = Inr (PStr ''trace'')
   \<and> getitem ([[(''text'', PStr ''trace'')], [(''text'', PStr ''answer'')]] ! 0) ''text''
       = Inr (PStr ''trace'')
   \<and> getitem ([[(''text'', PStr ''trace'')], [(''text'', PStr ''answer'')]] ! 1) ''text''
       = Inr (PStr ''answer'')"
  by (simp add: converse_py_def reply_with_def response_text_def contains_key_def getitem_def)

text \<open>
  Claim C7. On a response with an empty content list \<open>converse\<close> returns nothing: the
  subscript \<open>content[0]\<close> raises \<open>IndexError\<close>.
\<close>

theorem converse_empty_content:
  assumes "client (converse_request args) = Inr resp"
    and "output_message_content resp = []"
  shows "converse_py client args = Inl IndexError"
  using assms by (simp add: converse_reply response_text_def index0_def)

theorem converse_empty_content_witness:
  "converse_py (reply_with []) (default_args ''openai.gpt-oss-120b-1:0'' ''Hello'') = Inl IndexError"
  by (rule converse_empty_content [of _ _ "\<lparr>output_message_content = []\<rparr>"])
     (simp_all add: reply_with_def)

text \<open>
  Claim C10. On a response with more than one content block, none of which has the key
  \<open>text\<close>, the loop ends without returning and \<open>content[0]['text']\<close> raises \<open>KeyError\<close>.
\<close>

theorem converse_no_text_block:
  assumes "client (converse_request args) = Inr resp"
    and "output_message_content resp = content"
    and "1 < length content"
    and "\<forall>b \<in> set content. \<not> contains_key b ''text''"
  shows "for_item content = None \<and> converse_py client args = Inl KeyError"
proof -
  have n: "for_item content = None"
    using assms(4) by (simp add: for_item_None)
  from assms(3) obtain b bs where bs: "content = b # bs"
    by (cases content) auto
  with assms(4) have "getitem b ''text'' = Inl KeyError"
    by (simp add: getitem_no_key)
  with n bs have "response_text content = Inl KeyError"
    by (simp add: response_text_def index0_def)
  with n assms(1,2) show ?thesis
    by (simp add: converse_reply)
qed

theorem converse_no_text_block_witness:
  "converse_py (reply_with [[(''reasoningText'', PStr ''trace'')], [(''toolUse'', PStr ''call'')]])
       (default_args ''openai.gpt-oss-120b-1:0'' ''Hello'') = Inl KeyError"
proof -
  let ?c = "[[(''reasoningText'', PStr ''trace'')], [(''toolUse'', PStr ''call'')]]"
  have "for_item ?c = None
        \<and> converse_py (reply_with ?c) (default_args ''openai.gpt-oss-120b-1:0'' ''Hello'')
            = Inl KeyError"
    by (rule converse_no_text_block [of _ _ "\<lparr>output_message_content = ?c\<rparr>"])
       (simp_all add: reply_with_def contains_key_def)
  then show ?thesis by simp
qed

end
